theory Spec2Isabelle
  imports Main "HOL-Library.Sublist"
begin

section \<open>Python text\<close>

text \<open>
  A Python \<open>str\<close> is a sequence of Unicode code points, so a string is a list of
  natural numbers. \<open>lit\<close> turns an ASCII literal of the source into that form.
\<close>

type_synonym pystr = "nat list"

definition lit :: "string \<Rightarrow> pystr" where
  "lit s = map of_char s"

abbreviation nl :: nat where "nl \<equiv> 10"

abbreviation eq_sign :: nat where "eq_sign \<equiv> 61"

definition isspace :: "nat \<Rightarrow> bool" where
  \<comment> \<open>the code points for which \<open>str.isspace\<close> holds\<close>
  "isspace c \<longleftrightarrow>
     (9 \<le> c \<and> c \<le> 13) \<or> (28 \<le> c \<and> c \<le> 32) \<or> c = 133 \<or> c = 160 \<or> c = 5760 \<or>
     (8192 \<le> c \<and> c \<le> 8202) \<or> c = 8232 \<or> c = 8233 \<or> c = 8239 \<or> c = 8287 \<or> c = 12288"

definition strip :: "pystr \<Rightarrow> pystr" where
  \<comment> \<open>\<open>s.strip()\<close>\<close>
  "strip s = dropWhile isspace (rev (dropWhile isspace (rev s)))"

definition startswith :: "pystr \<Rightarrow> pystr \<Rightarrow> bool" where
  \<comment> \<open>\<open>s.startswith(p)\<close>\<close>
  "startswith s p \<longleftrightarrow> take (length p) s = p"

definition split_once :: "nat \<Rightarrow> pystr \<Rightarrow> pystr list" where
  \<comment> \<open>\<open>s.split(sep, 1)\<close> for a one-character separator\<close>
  "split_once sep s =
     (if sep \<in> set s
      then [takeWhile (\<lambda>c. c \<noteq> sep) s, tl (dropWhile (\<lambda>c. c \<noteq> sep) s)]
      else [s])"

fun truthy :: "pystr option \<Rightarrow> bool" where
  \<comment> \<open>the truth value of \<open>d.get(k)\<close>: \<open>None\<close> and the empty string are false\<close>
  "truthy None = False"
| "truthy (Some s) = (s \<noteq> [])"

fun decimal :: "nat \<Rightarrow> pystr" where
  \<comment> \<open>\<open>str(n)\<close> for a non-negative integer\<close>
  "decimal n = (if n < 10 then [48 + n] else decimal (n div 10) @ [48 + n mod 10])"

declare decimal.simps [simp del]

fun readlines :: "pystr \<Rightarrow> pystr list" where
  \<comment> \<open>\<open>for line in f\<close>: the text cut after each line feed, which stays on its line\<close>
  "readlines [] = []"
| "readlines (c # cs) =
     (if c = nl then [c] # readlines cs
      else (case readlines cs of [] \<Rightarrow> [[c]] | l # ls \<Rightarrow> (c # l) # ls))"

section \<open>The world of the scripts\<close>

text \<open>
  The scripts act on the credentials file \<open>.env.dropbox\<close>, on the network and on the
  terminal. The file is modelled by its text as Python's text layer delivers it (lines
  end in a line feed), \<open>None\<close> when the file does not exist. The network is the
  sequence of replies the remote side gives: the reply to a call is chosen by the number
  of calls made before it, and \<open>Net_Error\<close> stands for \<open>requests.post\<close> raising an
  exception with the given message. Every call is recorded, as is every printed line and
  every page sent to the browser. A JSON body is an object with string members and,
  for a folder listing, its \<open>entries\<close>; \<open>Inl\<close> is a body that is not JSON. A local file
  is its content, or \<open>Inl\<close> the message of the error that opening it raises.
\<close>

record entry =
  entry_tag :: pystr
  entry_name :: pystr
  entry_size :: nat

record json_body =
  members :: "pystr \<rightharpoonup> pystr"
  entries :: "entry list option"

record response =
  status_code :: nat
  resp_text :: pystr
  resp_content :: pystr
  json :: "pystr + json_body"

datatype reply = Response response | Net_Error pystr

datatype http_call =
    Token_Refresh pystr "pystr option" "pystr option"
  | Token_Exchange pystr
  | List_Folder_Probe pystr
  | List_Folder pystr
  | Download pystr pystr
  | Delete pystr pystr
  | Upload pystr pystr pystr

datatype error =
    ValueError
  | OSError pystr
  | KeyError pystr
  | FileNotFoundError
  | RequestException pystr
  | JSONDecodeError pystr

record world =
  env_file :: "pystr option"
  net :: "nat \<Rightarrow> reply"
  calls :: "http_call list"
  stdout :: "pystr list"
  browser :: "(nat \<times> pystr) list"
  local_files :: "pystr \<Rightarrow> pystr + pystr"

definition print :: "pystr \<Rightarrow> world \<Rightarrow> world" where
  "print s w = w\<lparr>stdout := stdout w @ [s]\<rparr>"

definition post :: "http_call \<Rightarrow> world \<Rightarrow> reply \<times> world" where
  \<comment> \<open>\<open>requests.post\<close>: the call is made, the remote side replies or the call raises\<close>
  "post c w = (net w (length (calls w)), w\<lparr>calls := calls w @ [c]\<rparr>)"

section \<open>dropbox-refresh-token.py\<close>

fun load_lines :: "pystr list \<Rightarrow> (pystr \<rightharpoonup> pystr) \<Rightarrow> error + (pystr \<rightharpoonup> pystr)" where
  "load_lines [] env_vars = Inr env_vars"
| "load_lines (line # rest) env_vars =
     (let line = strip line in
      if line \<noteq> [] \<and> \<not> startswith line (lit ''#'') then
        if eq_sign \<in> set line then
          (case split_once eq_sign line of
             [key, val] \<Rightarrow> load_lines rest (env_vars(key \<mapsto> val))
           | _ \<Rightarrow> Inl ValueError)
        else load_lines rest env_vars
      else load_lines rest env_vars)"

definition load_env :: "world \<Rightarrow> error + (pystr \<rightharpoonup> pystr)" where
  "load_env w =
     (case env_file w of
        None \<Rightarrow> Inr Map.empty
      | Some s \<Rightarrow> load_lines (readlines s) Map.empty)"

definition access_prefix :: pystr where
  "access_prefix = lit ''DROPBOX_ACCESS_TOKEN=''"

definition refresh_prefix :: pystr where
  "refresh_prefix = lit ''DROPBOX_REFRESH_TOKEN=''"

definition access_line :: "pystr \<Rightarrow> pystr" where
  \<comment> \<open>\<open>f"DROPBOX_ACCESS_TOKEN={new_access_token}\n"\<close>\<close>
  "access_line tok = access_prefix @ tok @ [nl]"

definition refresh_line :: "pystr \<Rightarrow> pystr" where
  \<comment> \<open>\<open>f"DROPBOX_REFRESH_TOKEN={tokens['refresh_token']}\n"\<close>\<close>
  "refresh_line tok = refresh_prefix @ tok @ [nl]"

fun rewrite_lines :: "pystr \<Rightarrow> pystr list \<Rightarrow> pystr list" where
  \<comment> \<open>the loop of lines 58-64\<close>
  "rewrite_lines new_access_token [] = []"
| "rewrite_lines new_access_token (line # rest) =
     (if startswith line access_prefix
      then access_line new_access_token # rewrite_lines new_access_token rest
      else line # rewrite_lines new_access_token rest)"

definition refresh_access_token :: "world \<Rightarrow> (error + bool) \<times> world" where
  "refresh_access_token w =
     (case load_env w of
        Inl e \<Rightarrow> (Inl e, w)
      | Inr env \<Rightarrow>
          let refresh_token = env (lit ''DROPBOX_REFRESH_TOKEN'');
              app_key = env (lit ''DROPBOX_APP_KEY'');
              app_secret = env (lit ''DROPBOX_APP_SECRET'')
          in
          (case refresh_token of
             None \<Rightarrow>
               (Inr False,
                print (10060 # lit '' No refresh token found. Run dropbox-oauth-setup.py first.'') w)
           | Some rt \<Rightarrow>
               if rt = [] then
                 (Inr False,
                  print (10060 # lit '' No refresh token found. Run dropbox-oauth-setup.py first.'') w)
               else
                 (case post (Token_Refresh rt app_key app_secret) w of
                    (Net_Error m, w1) \<Rightarrow> (Inl (RequestException m), w1)
                  | (Response r, w1) \<Rightarrow>
                      if status_code r = 200 then
                        (case json r of
                           Inl m \<Rightarrow> (Inl (JSONDecodeError m), w1)
                         | Inr tokens \<Rightarrow>
                             (case members tokens (lit ''access_token'') of
                                None \<Rightarrow> (Inl (KeyError (lit ''access_token'')), w1)
                              | Some new_access_token \<Rightarrow>
                                  (case env_file w1 of
                                     None \<Rightarrow> (Inl FileNotFoundError, w1)
                                   | Some s \<Rightarrow>
                                       let lines = rewrite_lines new_access_token (readlines s);
                                           w2 = w1\<lparr>env_file := Some (concat lines)\<rparr>;
                                           w3 = print (9989 # lit '' Access token refreshed successfully!'') w2;
                                           w4 = print (lit ''New token: '' @ take 20 new_access_token @ lit ''...'') w3
                                       in (Inr True, w4))))
                      else
                        (Inr False,
                         print (10060 # lit '' Failed to refresh token: '' @ resp_text r) w1))))"

definition test_token :: "world \<Rightarrow> (error + bool) \<times> world" where
  "test_token w =
     (case load_env w of
        Inl e \<Rightarrow> (Inl e, w)
      | Inr env \<Rightarrow>
          (case env (lit ''DROPBOX_ACCESS_TOKEN'') of
             None \<Rightarrow> (Inr False, print (10060 # lit '' No access token found'') w)
           | Some access_token \<Rightarrow>
               if access_token = [] then
                 (Inr False, print (10060 # lit '' No access token found'') w)
               else
                 (case post (List_Folder_Probe (lit ''Bearer '' @ access_token)) w of
                    (Net_Error m, w1) \<Rightarrow> (Inl (RequestException m), w1)
                  | (Response r, w1) \<Rightarrow>
                      if status_code r = 200 then
                        (Inr True, print (9989 # lit '' Current token is working'') w1)
                      else if status_code r = 401 then
                        (Inr False, print ([9888, 65039] @ lit '' Token expired, refreshing...'') w1)
                      else
                        (Inr False, print (10060 # lit '' API error: '' @ resp_text r) w1))))"


section \<open>dropbox-oauth-setup.py\<close>








section \<open>dropbox-api.py\<close>

fun api_load_lines :: "pystr list \<Rightarrow> (pystr \<rightharpoonup> pystr) \<Rightarrow> error + (pystr \<rightharpoonup> pystr)" where
  "api_load_lines [] env_vars = Inr env_vars"
| "api_load_lines (line # rest) env_vars =
     (let line = strip line in
      if line \<noteq> [] \<and> \<not> startswith line (lit ''#'') then
        (case split_once eq_sign line of
           [key, val] \<Rightarrow> api_load_lines rest (env_vars(key \<mapsto> val))
         | _ \<Rightarrow> Inl ValueError)
      else api_load_lines rest env_vars)"

definition api_load_env :: "world \<Rightarrow> error + (pystr \<rightharpoonup> pystr)" where
  "api_load_env w =
     (case env_file w of
        None \<Rightarrow> Inr Map.empty
      | Some s \<Rightarrow> api_load_lines (readlines s) Map.empty)"

definition bearer :: "pystr option \<Rightarrow> pystr" where
  \<comment> \<open>\<open>f'Bearer {access_token}'\<close>, where \<open>None\<close> is formatted as \<open>None\<close>\<close>
  "bearer access_token =
     lit ''Bearer '' @ (case access_token of None \<Rightarrow> lit ''None'' | Some t \<Rightarrow> t)"

definition list_files :: "world \<Rightarrow> (error + entry list) \<times> world" where
  "list_files w =
     (case api_load_env w of
        Inl e \<Rightarrow> (Inl e, w)
      | Inr env \<Rightarrow>
          let access_token = env (lit ''DROPBOX_ACCESS_TOKEN'') in
          if \<not> truthy access_token then
            (Inr [], print (10060 # lit '' No access token found'') w)
          else
            (case post (List_Folder (bearer access_token)) w of
               (Net_Error m, w1) \<Rightarrow>
                 (Inr [], print (10060 # lit '' Error listing files: '' @ m) w1)
             | (Response r, w1) \<Rightarrow>
                 if status_code r = 200 then
                   (case json r of
                      Inl m \<Rightarrow> (Inr [], print (10060 # lit '' Error listing files: '' @ m) w1)
                    | Inr result \<Rightarrow>
                        (case entries result of
                           None \<Rightarrow>
                             (Inr [],
                              print (10060 # lit '' Error listing files: '' @ [39] @ lit ''entries'' @ [39]) w1)
                         | Some es \<Rightarrow>
                             let files = filter (\<lambda>e. entry_tag e = lit ''file'') es;
                                 w2 = print (128193 # lit '' Found '' @ decimal (length files) @
                                        lit '' files in Dropbox:'') w1;
                                 w3 = fold (\<lambda>file. print (lit ''  '' @ [128196] @ lit '' '' @ entry_name file @
                                        lit '' ('' @ decimal (entry_size file) @ lit '' bytes)'')) files w2
                             in (Inr files, w3)))
                 else
                   (Inr [],
                    print (10060 # lit '' API Error: '' @ decimal (status_code r) @ lit '' - '' @ resp_text r) w1)))"

definition download_file :: "pystr \<Rightarrow> pystr \<Rightarrow> world \<Rightarrow> (error + bool) \<times> world" where
  \<comment> \<open>writing the local file is taken to succeed\<close>
  "download_file file_path local_path w =
     (case api_load_env w of
        Inl e \<Rightarrow> (Inl e, w)
      | Inr env \<Rightarrow>
          let access_token = env (lit ''DROPBOX_ACCESS_TOKEN'') in
          (case post (Download (bearer access_token) file_path) w of
             (Net_Error m, w1) \<Rightarrow>
               (Inr False, print (lit ''  '' @ [10060] @ lit '' Download error: '' @ m) w1)
           | (Response r, w1) \<Rightarrow>
               if status_code r = 200 then
                 (Inr True,
                  print (lit ''  '' @ [9989] @ lit '' Downloaded: '' @ file_path @ lit '' '' @ [8594] @
                         lit '' '' @ local_path)
                    (w1\<lparr>local_files := (local_files w1)(local_path := Inr (resp_content r))\<rparr>))
               else
                 (Inr False,
                  print (lit ''  '' @ [10060] @ lit '' Download failed: '' @ decimal (status_code r) @
                         lit '' - '' @ resp_text r) w1)))"

definition delete_file :: "pystr \<Rightarrow> world \<Rightarrow> (error + bool) \<times> world" where
  "delete_file file_path w =
     (case api_load_env w of
        Inl e \<Rightarrow> (Inl e, w)
      | Inr env \<Rightarrow>
          let access_token = env (lit ''DROPBOX_ACCESS_TOKEN'') in
          (case post (Delete (bearer access_token) file_path) w of
             (Net_Error m, w1) \<Rightarrow>
               (Inr False, print (lit ''  '' @ [10060] @ lit '' Delete error: '' @ m) w1)
           | (Response r, w1) \<Rightarrow>
               if status_code r = 200 then
                 (Inr True,
                  print (lit ''  '' @ [128465, 65039] @ lit ''  Deleted from Dropbox: '' @ file_path) w1)
               else
                 (Inr False,
                  print (lit ''  '' @ [10060] @ lit '' Delete failed: '' @ decimal (status_code r) @
                         lit '' - '' @ resp_text r) w1)))"

definition upload_file :: "pystr \<Rightarrow> pystr \<Rightarrow> world \<Rightarrow> (error + bool) \<times> world" where
  "upload_file local_path remote_path w =
     (case api_load_env w of
        Inl e \<Rightarrow> (Inl e, w)
      | Inr env \<Rightarrow>
          let access_token = env (lit ''DROPBOX_ACCESS_TOKEN'') in
          (case local_files w local_path of
             Inl m \<Rightarrow> (Inr False, print (lit ''  '' @ [10060] @ lit '' Upload error: '' @ m) w)
           | Inr data \<Rightarrow>
               (case post (Upload (bearer access_token) remote_path data) w of
                  (Net_Error m, w1) \<Rightarrow>
                    (Inr False, print (lit ''  '' @ [10060] @ lit '' Upload error: '' @ m) w1)
                | (Response r, w1) \<Rightarrow>
                    if status_code r = 200 then
                      (Inr True,
                       print (lit ''  '' @ [9989] @ lit '' Uploaded: '' @ local_path @ lit '' '' @ [8594] @
                              lit '' '' @ remote_path) w1)
                    else
                      (Inr False,
                       print (lit ''  '' @ [10060] @ lit '' Upload failed: '' @ decimal (status_code r) @
                              lit '' - '' @ resp_text r) w1))))"

datatype outcome = Finished | Sys_Exit nat | Uncaught error

fun finish :: "(error + 'a) \<times> world \<Rightarrow> outcome \<times> world" where
  \<comment> \<open>the value of a call is dropped; an exception ends the script\<close>
  "finish (Inl e, w) = (Uncaught e, w)"
| "finish (Inr _, w) = (Finished, w)"

definition api_main :: "pystr list \<Rightarrow> world \<Rightarrow> outcome \<times> world" where
  \<comment> \<open>\<open>main\<close> of dropbox-api.py; \<open>argv\<close> is \<open>sys.argv\<close>, the script's name first\<close>
  "api_main argv w =
     (if length argv < 2 then
        (Sys_Exit 1,
         print (lit ''Usage: python3 dropbox-api.py [list|download|delete|upload] [args...]'') w)
      else
        let command = argv ! 1 in
        if command = lit ''list'' then finish (list_files w)
        else if command = lit ''download'' then
          if length argv < 4 then
            (Sys_Exit 1,
             print (lit ''Usage: python3 dropbox-api.py download <remote_path> <local_path>'') w)
          else finish (download_file (argv ! 2) (argv ! 3) w)
        else if command = lit ''delete'' then
          if length argv < 3 then
            (Sys_Exit 1, print (lit ''Usage: python3 dropbox-api.py delete <remote_path>'') w)
          else finish (delete_file (argv ! 2) w)
        else if command = lit ''upload'' then
          if length argv < 4 then
            (Sys_Exit 1,
             print (lit ''Usage: python3 dropbox-api.py upload <local_path> <remote_path>'') w)
          else finish (upload_file (argv ! 2) (argv ! 3) w)
        else
          (Sys_Exit 1,
           print (lit ''Available commands: list, download, delete, upload'')
             (print (lit ''Unknown command: '' @ command) w)))"

section \<open>Notions used in the statements\<close>



text \<open>
  The key that \<open>load_env\<close> reads from a line, and the keys of a file in the order of
  their lines. A file has at most one line per key when these keys are distinct.
\<close>

definition line_key :: "pystr \<Rightarrow> pystr option" where
  "line_key line =
     (let l = strip line in
      if l \<noteq> [] \<and> \<not> startswith l (lit ''#'') \<and> eq_sign \<in> set l
      then Some (takeWhile (\<lambda>c. c \<noteq> eq_sign) l) else None)"

fun keys_of_lines :: "pystr list \<Rightarrow> pystr list" where
  "keys_of_lines [] = []"
| "keys_of_lines (l # ls) =
     (case line_key l of None \<Rightarrow> keys_of_lines ls | Some k \<Rightarrow> k # keys_of_lines ls)"







subsection \<open>Sample runs\<close>

definition fresh_world :: "pystr option \<Rightarrow> (nat \<Rightarrow> reply) \<Rightarrow> world" where
  \<comment> \<open>the start of a run: nothing called, nothing printed yet\<close>
  "fresh_world f n =
     \<lparr>env_file = f, net = n, calls = [], stdout = [], browser = [], local_files = (\<lambda>p. Inl [])\<rparr>"

definition token_response :: "nat \<Rightarrow> (pystr \<rightharpoonup> pystr) \<Rightarrow> response" where
  "token_response st m =
     \<lparr>status_code = st, resp_text = [], resp_content = [],
      json = Inr \<lparr>members = m, entries = None\<rparr>\<rparr>"

definition new_token :: "pystr \<rightharpoonup> pystr" where
  "new_token = [lit ''access_token'' \<mapsto> lit ''new'']"



definition no_access_store :: pystr where
  "no_access_store = lit ''DROPBOX_APP_KEY=k'' @ [nl] @ lit ''DROPBOX_APP_SECRET=s'' @ [nl] @
     lit ''DROPBOX_REFRESH_TOKEN=r'' @ [nl]"





definition app_key_store :: pystr where
  "app_key_store = lit ''DROPBOX_APP_KEY=k'' @ [nl]"


definition failing_then_ok :: "nat \<Rightarrow> reply" where
  \<comment> \<open>the first call is answered with status 500, the later ones with a new token\<close>
  "failing_then_ok n = Response (token_response (if n = 0 then 500 else 200) new_token)"

section \<open>Lines of a file\<close>

lemma concat_readlines: "concat (readlines s) = s"
  by (induction s) (auto split: list.splits)








section \<open>Evaluating the sample runs\<close>

lemmas eval_text = lit_def strip_def isspace_def startswith_def split_once_def
  access_prefix_def refresh_prefix_def access_line_def refresh_line_def

lemma fresh_world_sel [simp]:
  "env_file (fresh_world f n) = f" "net (fresh_world f n) = n" "calls (fresh_world f n) = []"
  "stdout (fresh_world f n) = []" "browser (fresh_world f n) = []"
  by (simp_all add: fresh_world_def)


lemma no_access_store_env:
  "load_env (fresh_world (Some no_access_store) n) =
     Inr [lit ''DROPBOX_APP_KEY'' \<mapsto> lit ''k'', lit ''DROPBOX_APP_SECRET'' \<mapsto> lit ''s'',
          lit ''DROPBOX_REFRESH_TOKEN'' \<mapsto> lit ''r'']"
  by (simp add: load_env_def fresh_world_def no_access_store_def eval_text)



lemma app_key_store_env:
  "load_env (fresh_world (Some app_key_store) n) = Inr [lit ''DROPBOX_APP_KEY'' \<mapsto> lit ''k'']"
  by (simp add: load_env_def fresh_world_def app_key_store_def eval_text)

section \<open>The token refresh utility\<close>

lemma print_fields [simp]:
  "calls (print m w) = calls w" "net (print m w) = net w" "env_file (print m w) = env_file w"
  "stdout (print m w) = stdout w @ [m]" "browser (print m w) = browser w"
  by (simp_all add: print_def)

lemma load_env_print [simp]: "load_env (print m w) = load_env w"
  by (simp add: load_env_def)




text \<open>
  C3, at a file with a refresh token and no access-token line: \<open>refresh_access_token\<close>
  returns \<open>True\<close> and leaves the file as it was, so the file holds no
  \<open>DROPBOX_ACCESS_TOKEN=\<close> line and the new token is stored nowhere.
\<close>

theorem refresh_does_not_append_missing_line:
  "fst (refresh_access_token
          (fresh_world (Some no_access_store) (\<lambda>_. Response (token_response 200 new_token)))) = Inr True \<and>
   env_file (snd (refresh_access_token
          (fresh_world (Some no_access_store) (\<lambda>_. Response (token_response 200 new_token))))) =
     Some no_access_store \<and>
   filter (\<lambda>l. startswith l access_prefix) (readlines no_access_store) = []"
  apply (simp add: refresh_access_token_def no_access_store_env post_def Let_def)
  apply (simp add: token_response_def new_token_def no_access_store_def eval_text)
  done





text \<open>
  C10. When the stored access token is missing or empty, \<open>test_token\<close> returns
  \<open>False\<close>, makes no network call and leaves the credentials file as it is; when the
  stored refresh token is missing or empty, so does \<open>refresh_access_token\<close>.
\<close>

theorem missing_credential_fails_early:
  assumes "load_env w = Inr env"
  shows "(\<not> truthy (env (lit ''DROPBOX_ACCESS_TOKEN'')) \<longrightarrow>
            fst (test_token w) = Inr False \<and>
            calls (snd (test_token w)) = calls w \<and>
            env_file (snd (test_token w)) = env_file w) \<and>
         (\<not> truthy (env (lit ''DROPBOX_REFRESH_TOKEN'')) \<longrightarrow>
            fst (refresh_access_token w) = Inr False \<and>
            calls (snd (refresh_access_token w)) = calls w \<and>
            env_file (snd (refresh_access_token w)) = env_file w)"
  using assms
  by (auto simp: test_token_def refresh_access_token_def print_def split: option.splits)

theorem missing_credential_fails_early_witness:
  "fst (test_token (fresh_world (Some app_key_store) failing_then_ok)) = Inr False \<and>
   calls (snd (test_token (fresh_world (Some app_key_store) failing_then_ok))) = [] \<and>
   env_file (snd (test_token (fresh_world (Some app_key_store) failing_then_ok))) = Some app_key_store \<and>
   fst (refresh_access_token (fresh_world (Some app_key_store) failing_then_ok)) = Inr False \<and>
   calls (snd (refresh_access_token (fresh_world (Some app_key_store) failing_then_ok))) = [] \<and>
   env_file (snd (refresh_access_token (fresh_world (Some app_key_store) failing_then_ok))) =
     Some app_key_store"
proof -
  have a: "\<not> truthy ([lit ''DROPBOX_APP_KEY'' \<mapsto> lit ''k''] (lit ''DROPBOX_ACCESS_TOKEN''))"
    and r: "\<not> truthy ([lit ''DROPBOX_APP_KEY'' \<mapsto> lit ''k''] (lit ''DROPBOX_REFRESH_TOKEN''))"
    by (simp_all add: lit_def)
  show ?thesis
    using missing_credential_fails_early[OF app_key_store_env, of failing_then_ok] a r
    by simp
qed








section \<open>The two parsers of the credentials file\<close>




section \<open>The command line of dropbox-api.py\<close>

text \<open>
  C8. With no command, with \<open>download\<close> or \<open>upload\<close> and fewer than two further
  arguments, or with \<open>delete\<close> and no further argument, \<open>main\<close> exits with code 1 and
  has made no network call. With a command that is none of \<open>list\<close>, \<open>download\<close>,
  \<open>delete\<close>, \<open>upload\<close> it exits with code 1 without a network call, after printing the
  unknown command and the line that lists the four commands.
\<close>

theorem api_main_argument_errors:
  "(length argv < 2 \<or>
    2 \<le> length argv \<and> argv ! 1 = lit ''download'' \<and> length argv < 4 \<or>
    2 \<le> length argv \<and> argv ! 1 = lit ''delete'' \<and> length argv < 3 \<or>
    2 \<le> length argv \<and> argv ! 1 = lit ''upload'' \<and> length argv < 4 \<longrightarrow>
      fst (api_main argv w) = Sys_Exit 1 \<and> calls (snd (api_main argv w)) = calls w) \<and>
   (2 \<le> length argv \<and> argv ! 1 \<noteq> lit ''list'' \<and> argv ! 1 \<noteq> lit ''download'' \<and>
    argv ! 1 \<noteq> lit ''delete'' \<and> argv ! 1 \<noteq> lit ''upload'' \<longrightarrow>
      fst (api_main argv w) = Sys_Exit 1 \<and> calls (snd (api_main argv w)) = calls w \<and>
      stdout (snd (api_main argv w)) =
        stdout w @ [lit ''Unknown command: '' @ argv ! 1,
                    lit ''Available commands: list, download, delete, upload''])"
proof -
  have ne: "lit ''download'' \<noteq> lit ''list''" "lit ''delete'' \<noteq> lit ''list''"
    "lit ''delete'' \<noteq> lit ''download''" "lit ''upload'' \<noteq> lit ''list''"
    "lit ''upload'' \<noteq> lit ''download''" "lit ''upload'' \<noteq> lit ''delete''"
    by (simp_all add: lit_def)
  show ?thesis
    using ne by (auto simp: api_main_def Let_def)
qed

theorem api_main_argument_errors_witness:
  "fst (api_main [lit ''dropbox-api.py'', lit ''download'', lit ''/a.png'']
          (fresh_world None failing_then_ok)) = Sys_Exit 1 \<and>
   calls (snd (api_main [lit ''dropbox-api.py'', lit ''download'', lit ''/a.png'']
          (fresh_world None failing_then_ok))) = [] \<and>
   fst (api_main [lit ''dropbox-api.py'', lit ''move''] (fresh_world None failing_then_ok)) = Sys_Exit 1 \<and>
   calls (snd (api_main [lit ''dropbox-api.py'', lit ''move''] (fresh_world None failing_then_ok))) = [] \<and>
   stdout (snd (api_main [lit ''dropbox-api.py'', lit ''move''] (fresh_world None failing_then_ok))) =
     [lit ''Unknown command: '' @ lit ''move'',
      lit ''Available commands: list, download, delete, upload'']"
proof -
  have ne: "lit ''move'' \<noteq> lit ''list''" "lit ''move'' \<noteq> lit ''download''"
    "lit ''move'' \<noteq> lit ''delete''" "lit ''move'' \<noteq> lit ''upload''"
    by (simp_all add: lit_def)
  show ?thesis
    using api_main_argument_errors[of "[lit ''dropbox-api.py'', lit ''download'', lit ''/a.png'']"
        "fresh_world None failing_then_ok"]
      api_main_argument_errors[of "[lit ''dropbox-api.py'', lit ''move'']"
        "fresh_world None failing_then_ok"] ne
    by simp
qed

section \<open>The authorization flow\<close>







section \<open>Keys and lines of the credentials file\<close>

lemma load_lines_dom:
  "load_lines ls e = Inr e' \<Longrightarrow> dom e' = dom e \<union> set (keys_of_lines ls)"
  by (induction ls arbitrary: e) (auto simp: Let_def split_once_def line_key_def split: if_splits)
















lemma refresh_line_terminated: "refresh_line t \<noteq> [] \<and> last (refresh_line t) = nl"
  by (simp add: refresh_line_def)






























end
